theory Spec2Isabelle
  imports Complex_Main
begin

section \<open>Exceptions\<close>

text \<open>
  The exceptions the modelled code raises. \<open>InvalidInputType\<close> is the bare
  \<open>Exception\<close> raised by \<open>SimpleReplayBuffer.store\<close>; \<open>ShapeError\<close> is the
  \<open>RuntimeError\<close> of a tensor operation on operands that do not broadcast;
  \<open>NotANumber\<close> stands for the value \<open>nan\<close> where numbers are real, which every
  later operation hands on, so that it behaves as an error does.
\<close>

datatype error =
    ValueError
  | IndexError
  | KeyError
  | AssertionError
  | NotImplementedError
  | InvalidInputType
  | ShapeError
  | AttributeError
  | NotANumber
  | IOError
  | RuntimeError

text \<open>
  A step that may raise, followed by what is done with its result; and the lookup
  \<open>d[k]\<close> in a dict, which raises for a missing key.
\<close>

definition and_then :: "error + 'x \<Rightarrow> ('x \<Rightarrow> error + 'y) \<Rightarrow> error + 'y" where
  "and_then m f = (case m of Inl e \<Rightarrow> Inl e | Inr x \<Rightarrow> f x)"

definition lookup :: "(string \<rightharpoonup> 'x) \<Rightarrow> string \<Rightarrow> error + 'x" where
  "lookup m k = (case m k of None \<Rightarrow> Inl KeyError | Some x \<Rightarrow> Inr x)"

section \<open>float32 values\<close>














section \<open>collections.deque with a maximum length\<close>

text \<open>
  \<open>collections.deque(maxlen=n)\<close>: the constructor rejects a negative \<open>maxlen\<close>;
  \<open>append\<close> adds on the right and then, when the length exceeds \<open>maxlen\<close>, drops
  one element on the left; \<open>extend\<close> appends the elements of its argument one by one.
\<close>

record 'a deque =
  maxlen :: nat
  items :: "'a list"

definition deque_new :: "int \<Rightarrow> error + 'a deque" where
  "deque_new n =
     (if n < 0 then Inl ValueError else Inr \<lparr>maxlen = nat n, items = []\<rparr>)"

definition deque_append :: "'a deque \<Rightarrow> 'a \<Rightarrow> 'a deque" where
  "deque_append q x =
     (let xs = items q @ [x]
      in q\<lparr>items := (if length xs > maxlen q then tl xs else xs)\<rparr>)"

fun deque_extend :: "'a deque \<Rightarrow> 'a list \<Rightarrow> 'a deque" where
  "deque_extend q [] = q"
| "deque_extend q (x # xs) = deque_extend (deque_append q x) xs"

section \<open>SimpleReplayBuffer\<close>

text \<open>
  An observation is a pair of array-likes. \<open>convert\<close> turns a \<open>torch.Tensor\<close>
  (which carries \<open>requires_grad\<close>) into a numpy array of the same data, and leaves
  everything else as it is. The array data \<open>'d\<close> is opaque.
\<close>

datatype 'd arraylike = Tensor bool 'd | NdArray 'd

fun to_numpy :: "'d arraylike \<Rightarrow> 'd arraylike" where
  "to_numpy (Tensor requires_grad d) = NdArray d"
| "to_numpy (NdArray d) = NdArray d"

fun convert :: "'d arraylike \<times> 'd arraylike \<Rightarrow> 'd arraylike \<times> 'd arraylike" where
  "convert (obs, act) = (to_numpy obs, to_numpy act)"

text \<open>The object found under \<open>values["act"]\<close>: it has an attribute \<open>action\<close>.\<close>

record 'a action_obj =
  action :: 'a

text \<open>The dict a caller passes to \<open>store\<close>, with the five keys that \<open>store\<close> reads.\<close>

record ('d, 'a) step_dict =
  v_obs :: "'d arraylike \<times> 'd arraylike"
  v_next_obs :: "'d arraylike \<times> 'd arraylike"
  v_act :: "'a action_obj"
  v_rew :: real
  v_done :: real

text \<open>The dict \<open>currdict\<close> that \<open>store\<close> appends to the deque.\<close>

record ('d, 'a) transition =
  t_obs :: "'d arraylike \<times> 'd arraylike"
  t_obs2 :: "'d arraylike \<times> 'd arraylike"
  t_act :: 'a
  t_rew :: real
  t_done :: real

text \<open>
  The buffer object. \<open>weights\<close> is an attribute that only \<open>sample_batch\<close> assigns:
  it is \<open>None\<close> until the first call.
\<close>

record ('d, 'a) SimpleReplayBuffer =
  max_size :: int
  obs_dim :: int
  act_dim :: int
  batch_size :: int
  buffer :: "('d, 'a) transition deque"
  weights :: "real list option"

definition SimpleReplayBuffer_init ::
  "int \<Rightarrow> int \<Rightarrow> int \<Rightarrow> int \<Rightarrow> error + ('d, 'a) SimpleReplayBuffer" where
  "SimpleReplayBuffer_init od ad sz bs =
     (case deque_new sz of
        Inl e \<Rightarrow> Inl e
      | Inr q \<Rightarrow> Inr \<lparr>max_size = sz, obs_dim = od, act_dim = ad, batch_size = bs,
                      buffer = q, weights = None\<rparr>)"

definition len :: "('d, 'a) SimpleReplayBuffer \<Rightarrow> nat" where
  "len b = length (items (buffer b))"

text \<open>
  The argument of \<open>store\<close>: a dict, a buffer of the same class, or a value of any
  other type (\<open>None\<close>, a number, a string, a list, ...).
\<close>

datatype py_other = PyNone | PyNumber real | PyString string | PyList "py_other list"

datatype ('d, 'a) store_input =
    Dict "('d, 'a) step_dict"
  | Buffer "('d, 'a) SimpleReplayBuffer"
  | OtherValue py_other

text \<open>
  \<open>store\<close> mutates the buffer and returns nothing; it may raise. The model returns
  the exception, if any, together with the buffer as the call leaves it.
\<close>

fun store ::
  "('d, 'a) SimpleReplayBuffer \<Rightarrow> ('d, 'a) store_input \<Rightarrow> error option \<times> ('d, 'a) SimpleReplayBuffer"
  where
  "store b (Dict vals) =
     (let obs = convert (v_obs vals);
          next_obs = convert (v_next_obs vals);
          action = action (v_act vals);
          reward = v_rew vals;
          done = v_done vals;
          currdict = \<lparr>t_obs = obs, t_obs2 = next_obs, t_act = action,
                      t_rew = reward, t_done = done\<rparr>
      in (None, b\<lparr>buffer := deque_append (buffer b) currdict\<rparr>))"
| "store b (Buffer other) =
     (None, b\<lparr>buffer := deque_extend (buffer b) (items (buffer other))\<rparr>)"
| "store b (OtherValue x) = (Some InvalidInputType, b)"

text \<open>
  A sequence of \<open>store\<close> calls on one buffer; a call that raises leaves the caller
  with the buffer as that call left it.
\<close>

fun store_all ::
  "('d, 'a) SimpleReplayBuffer \<Rightarrow> ('d, 'a) store_input list \<Rightarrow> ('d, 'a) SimpleReplayBuffer" where
  "store_all b [] = b"
| "store_all b (v # vs) = store_all (snd (store b v)) vs"

text \<open>The elements that one \<open>store\<close> call offers to the deque, in order.\<close>

fun offered :: "('d, 'a) store_input \<Rightarrow> ('d, 'a) transition list" where
  "offered (Dict vals) =
     [\<lparr>t_obs = convert (v_obs vals), t_obs2 = convert (v_next_obs vals),
       t_act = action (v_act vals), t_rew = v_rew vals, t_done = v_done vals\<rparr>]"
| "offered (Buffer other) = items (buffer other)"
| "offered (OtherValue x) = []"

text \<open>The last \<open>n\<close> elements of a list, in their order.\<close>

definition most_recent :: "nat \<Rightarrow> 'a list \<Rightarrow> 'a list" where
  "most_recent n xs = drop (length xs - n) xs"

section \<open>Sampling a batch\<close>


























section \<open>Tensor arithmetic\<close>

text \<open>
  A binary operation on 1-D tensors broadcasts: operands of equal length are combined
  entry by entry, an operand of one entry is combined with every entry of the other,
  and anything else is an error.
\<close>

definition broadcast :: "('x \<Rightarrow> 'x \<Rightarrow> 'x) \<Rightarrow> 'x list \<Rightarrow> 'x list \<Rightarrow> error + 'x list" where
  "broadcast f xs ys =
     (if length xs = length ys then Inr (map2 f xs ys)
      else if length xs = 1 then Inr (map (f (hd xs)) ys)
      else if length ys = 1 then Inr (map (\<lambda>x. f x (hd ys)) xs)
      else Inl ShapeError)"

text \<open>
  The losses as formulas: the entries of a tensor of numbers are real numbers and the
  operations are exact. \<open>.mean()\<close> of an empty tensor is \<open>nan\<close>.
\<close>

datatype ('d, 'a) tensor =
    ObsT "('d arraylike \<times> 'd arraylike) list"
  | ActT "'a list"
  | NumT "real list"

definition tensor_mean :: "real list \<Rightarrow> error + real" where
  "tensor_mean xs =
     (if xs = [] then Inl NotANumber else Inr (sum_list xs / real (length xs)))"

definition as_numbers :: "('d, 'a) tensor \<Rightarrow> error + real list" where
  "as_numbers x = (case x of NumT xs \<Rightarrow> Inr xs | _ \<Rightarrow> Inl ShapeError)"

section \<open>Parameters, autograd and optimizers\<close>

text \<open>
  A parameter tensor is an object on the heap, with its \<open>data\<close>, its
  \<open>requires_grad\<close> flag and its \<open>grad\<close> (\<open>None\<close> when there is none). The data
  of a parameter is a vector, scaled and added as a whole. A module is the list of the
  parameters that \<open>.parameters()\<close> yields.
\<close>

record 'v parameter =
  p_data :: 'v
  requires_grad :: bool
  grad :: "'v option"

type_synonym 'v heap = "nat \<Rightarrow> 'v parameter"

definition parameter_values :: "'v heap \<Rightarrow> nat list \<Rightarrow> 'v list" where
  "parameter_values h ps = map (\<lambda>p. p_data (h p)) ps"

text \<open>
  \<open>loss.backward()\<close>: autograd yields a gradient for the parameters that the loss
  depends on, and adds it to the \<open>grad\<close> of those that require one. The gradients
  themselves come from the library and are an argument of the model.
\<close>

definition backward :: "(nat \<Rightarrow> 'v::real_vector option) \<Rightarrow> 'v heap \<Rightarrow> 'v heap" where
  "backward g h =
     (\<lambda>p. case g p of
        None \<Rightarrow> h p
      | Some d \<Rightarrow>
         (if requires_grad (h p)
          then (h p)\<lparr>grad := Some (case grad (h p) of None \<Rightarrow> d | Some d0 \<Rightarrow> d0 + d)\<rparr>
          else h p))"

text \<open>
  An optimizer (\<open>torch.optim\<close>) owns a group of parameters. \<open>zero_grad\<close> clears the
  \<open>grad\<close> of each of them, to \<open>None\<close> or to zero according to \<open>set_to_none\<close>;
  \<open>step\<close> gives each of them that has a \<open>grad\<close> new data, by the optimizer's
  update rule. The class \<open>SACAgent\<close> reads \<open>self.q_optimizer\<close>,
  \<open>self.pi_optimizer\<close> and \<open>self.q_params\<close> but never assigns them: they are
  attributes that the agent is given.
\<close>

record 'v optimizer =
  param_group :: "nat list"
  step_rule :: "nat \<Rightarrow> 'v \<Rightarrow> 'v \<Rightarrow> 'v"
  set_to_none :: bool

definition zero_grad :: "'v::real_vector optimizer \<Rightarrow> 'v heap \<Rightarrow> 'v heap" where
  "zero_grad opt h =
     (\<lambda>p. if p \<in> set (param_group opt)
          then (h p)\<lparr>grad := (if set_to_none opt then None
                               else map_option (\<lambda>_. 0) (grad (h p)))\<rparr>
          else h p)"

definition optimizer_step :: "'v optimizer \<Rightarrow> 'v heap \<Rightarrow> 'v heap" where
  "optimizer_step opt h =
     (\<lambda>p. if p \<in> set (param_group opt)
          then (case grad (h p) of
                  None \<Rightarrow> h p
                | Some g \<Rightarrow> (h p)\<lparr>p_data := step_rule opt p (p_data (h p)) g\<rparr>)
          else h p)"

text \<open>\<open>for p in ps: p.requires_grad = flag\<close>\<close>

fun set_requires_grad :: "nat list \<Rightarrow> bool \<Rightarrow> 'v heap \<Rightarrow> 'v heap" where
  "set_requires_grad [] flag h = h"
| "set_requires_grad (p # ps) flag h =
     set_requires_grad ps flag (h(p := (h p)\<lparr>requires_grad := flag\<rparr>))"

text \<open>
  The loop over \<open>zip(actor_critic.parameters(), actor_critic_target.parameters())\<close>:
  \<open>p_targ.data.mul_(polyak)\<close> and then \<open>p_targ.data.add_((1 - polyak) * p.data)\<close>,
  both in place.
\<close>

fun polyak_average :: "real \<Rightarrow> (nat \<times> nat) list \<Rightarrow> 'v::real_vector heap \<Rightarrow> 'v heap" where
  "polyak_average c [] h = h"
| "polyak_average c ((p, p_targ) # ps) h =
     (let h1 = h(p_targ := (h p_targ)\<lparr>p_data := c *\<^sub>R p_data (h p_targ)\<rparr>);
          h2 = h1(p_targ := (h1 p_targ)\<lparr>p_data := p_data (h1 p_targ) + (1 - c) *\<^sub>R p_data (h1 p)\<rparr>)
      in polyak_average c ps h2)"

section \<open>The agent\<close>

text \<open>
  The networks of an \<open>ActorCritic\<close>, as functions of the module's parameter values.
  \<open>pi\<close> takes the noise of its sample and returns the actions with their
  log-probabilities; \<open>q1\<close> and \<open>q2\<close> return one value per row, flattened
  (\<open>out.view(-1)\<close>).
\<close>

record ('d, 'a, 'v, 'n) ActorCritic =
  ac_pi :: "'v list \<Rightarrow> ('d, 'a) tensor \<Rightarrow> 'n \<Rightarrow> ('d, 'a) tensor \<times> real list"
  ac_q1 :: "'v list \<Rightarrow> ('d, 'a) tensor \<Rightarrow> ('d, 'a) tensor \<Rightarrow> real list"
  ac_q2 :: "'v list \<Rightarrow> ('d, 'a) tensor \<Rightarrow> ('d, 'a) tensor \<Rightarrow> real list"

text \<open>The configuration \<open>self.cfg\<close>, with the section of each encoder type.\<close>

record encoder_cfg =
  speed_hiddens :: "int list"
  latent_dims :: int
  im_c :: int
  im_h :: int
  im_w :: int
  vae_chkpt_statedict :: string

record config =
  start_steps :: real
  gamma :: real
  alpha :: real
  polyak :: real
  use_encoder_type :: string
  encoder_switch :: bool
  encoder_sections :: "string \<rightharpoonup> encoder_cfg"

text \<open>A \<open>VAE\<close> backbone: its dimensions, the state dict it has loaded, its device.\<close>

record 'sd VAE =
  vae_im_c :: int
  vae_im_h :: int
  vae_im_w :: int
  vae_z_dim :: int
  vae_state :: "'sd option"
  vae_on_device :: bool

text \<open>
  The attributes of a \<open>SACAgent\<close>. \<open>self_t\<close> is \<open>self.t\<close>, \<open>transition_actor\<close>
  is \<open>self.record["transition_actor"]\<close>, \<open>agent_obs_dim\<close> is \<open>self.obs_dim\<close>.
  The two actor-critics and \<open>q_params\<close> are lists of parameters on the heap.
\<close>

record ('d, 'a, 'v, 'sd) SACAgent =
  cfg :: config
  self_t :: real
  deterministic :: bool
  transition_actor :: string
  feat_dim :: "int option"
  agent_obs_dim :: "int option"
  backbone :: "'sd VAE option"
  replay_buffer :: "('d, 'a) SimpleReplayBuffer"
  actor_critic :: "nat list"
  actor_critic_target :: "nat list"
  q_params :: "nat list"
  q_optimizer :: "'v optimizer"
  pi_optimizer :: "'v optimizer"

subsection \<open>select_action and register_reset\<close>

text \<open>
  \<open>encode_fn\<close> is \<open>self._encode\<close> and \<open>act_fn\<close> is \<open>self.actor_critic.act\<close>, which
  takes the \<open>deterministic\<close> flag and the noise of its sample; \<open>sampled\<close> is the
  outcome of \<open>self.action_space.sample()\<close>.
\<close>

definition select_action ::
  "('f \<Rightarrow> 'f) \<Rightarrow> ('v list \<Rightarrow> 'f \<Rightarrow> bool \<Rightarrow> 'n \<Rightarrow> 'act) \<Rightarrow> 'v heap \<Rightarrow>
   ('d, 'a, 'v, 'sd) SACAgent \<Rightarrow> 'f \<Rightarrow> bool \<Rightarrow> 'n \<Rightarrow> 'act \<Rightarrow>
   'act \<times> ('d, 'a, 'v, 'sd) SACAgent" where
  "select_action encode_fn act_fn h agent obs encode noise sampled =
     (let obs1 = (if encode then encode_fn obs else obs)
      in if self_t agent > start_steps (cfg agent)
         then (act_fn (parameter_values h (actor_critic agent)) obs1 (deterministic agent) noise,
               agent\<lparr>transition_actor := ''learner'', self_t := self_t agent + 1\<rparr>)
         else (sampled,
               agent\<lparr>transition_actor := ''random'', self_t := self_t agent + 1\<rparr>))"

definition register_reset ::
  "('d, 'a, 'v, 'sd) SACAgent \<Rightarrow> 'f \<Rightarrow> ('d, 'a, 'v, 'sd) SACAgent" where
  "register_reset agent obs = agent\<lparr>deterministic := True, self_t := 1000000\<rparr>"

text \<open>
  A sequence of calls on one agent. For each \<open>select_action\<close> the run records the
  action returned and the actor that the call wrote into \<open>self.record\<close>.
\<close>

datatype ('f, 'n, 'act) agent_call =
    SelectAction 'f bool 'n 'act
  | RegisterReset 'f

fun run_calls ::
  "('f \<Rightarrow> 'f) \<Rightarrow> ('v list \<Rightarrow> 'f \<Rightarrow> bool \<Rightarrow> 'n \<Rightarrow> 'act) \<Rightarrow> 'v heap \<Rightarrow>
   ('d, 'a, 'v, 'sd) SACAgent \<Rightarrow> ('f, 'n, 'act) agent_call list \<Rightarrow>
   ('act \<times> string) list \<times> ('d, 'a, 'v, 'sd) SACAgent" where
  "run_calls encode_fn act_fn h agent [] = ([], agent)"
| "run_calls encode_fn act_fn h agent (SelectAction obs encode noise sampled # calls) =
     (let (a, agent1) = select_action encode_fn act_fn h agent obs encode noise sampled;
          (outs, agent2) = run_calls encode_fn act_fn h agent1 calls
      in ((a, transition_actor agent1) # outs, agent2))"
| "run_calls encode_fn act_fn h agent (RegisterReset obs # calls) =
     run_calls encode_fn act_fn h (register_reset agent obs) calls"

text \<open>What a call returns when the learned policy acts deterministically.\<close>

fun learner_outcome ::
  "('f \<Rightarrow> 'f) \<Rightarrow> ('v list \<Rightarrow> 'f \<Rightarrow> bool \<Rightarrow> 'n \<Rightarrow> 'act) \<Rightarrow> 'v list \<Rightarrow>
   ('f, 'n, 'act) agent_call \<Rightarrow> ('act \<times> string) list" where
  "learner_outcome encode_fn act_fn vs (SelectAction obs encode noise sampled) =
     [(act_fn vs (if encode then encode_fn obs else obs) True noise, ''learner'')]"
| "learner_outcome encode_fn act_fn vs (RegisterReset obs) = []"

subsection \<open>setup_vision_encoder\<close>

text \<open>
  \<open>torch_load\<close> reads a checkpoint file and \<open>load_state_dict\<close> is the method of the
  \<open>VAE\<close>; both may raise. The model returns the exception, if any, with the agent as
  the call leaves it.
\<close>

definition section_of :: "config \<Rightarrow> string \<Rightarrow> error + encoder_cfg" where
  "section_of c name = lookup (encoder_sections c) name"

definition last_item :: "int list \<Rightarrow> error + int" where
  "last_item xs = (if xs = [] then Inl IndexError else Inr (last xs))"

definition setup_vision_encoder ::
  "(string \<Rightarrow> error + 'sd) \<Rightarrow> ('sd VAE \<Rightarrow> 'sd \<Rightarrow> error + 'sd VAE) \<Rightarrow>
   ('d, 'a, 'v, 'sd) SACAgent \<Rightarrow> error option \<times> ('d, 'a, 'v, 'sd) SACAgent" where
  "setup_vision_encoder torch_load load_state_dict agent =
     (let c = cfg agent in
      if use_encoder_type c \<notin> set [''vae''] then (Some AssertionError, agent)
      else case section_of c (use_encoder_type c) of
        Inl e \<Rightarrow> (Some e, agent)
      | Inr sec \<Rightarrow>
         (let agent1 = agent\<lparr>feat_dim := Some (latent_dims sec + 1)\<rparr> in
          case (if encoder_switch c
                then and_then (last_item (speed_hiddens sec))
                       (\<lambda>l. Inr (Some (latent_dims sec + l)))
                else Inr None) of
            Inl e \<Rightarrow> (Some e, agent1)
          | Inr od \<Rightarrow>
             (let agent2 = agent1\<lparr>agent_obs_dim := od\<rparr> in
              if use_encoder_type c = ''vae''
              then (case section_of c ''vae'' of
                      Inl e \<Rightarrow> (Some e, agent2)
                    | Inr vsec \<Rightarrow>
                       (let vae = \<lparr>vae_im_c = im_c vsec, vae_im_h = im_h vsec,
                                   vae_im_w = im_w vsec, vae_z_dim = latent_dims vsec,
                                   vae_state = None, vae_on_device = False\<rparr>;
                            agent3 = agent2\<lparr>backbone := Some vae\<rparr>
                        in case torch_load (vae_chkpt_statedict vsec) of
                             Inl e \<Rightarrow> (Some e, agent3)
                           | Inr sd \<Rightarrow>
                              (case load_state_dict vae sd of
                                 Inl e \<Rightarrow> (Some e, agent3)
                               | Inr vae1 \<Rightarrow>
                                  (None, agent3\<lparr>backbone :=
                                     Some (vae1\<lparr>vae_on_device := True\<rparr>)\<rparr>))))
              else (Some NotImplementedError, agent2))))"

subsection \<open>The losses\<close>

text \<open>
  \<open>compute_loss_q\<close> and \<open>compute_loss_pi\<close> return the loss (the second component of
  the source's result only repeats network outputs for logging). \<open>eps\<close> is the noise
  of the policy's sample.
\<close>

definition compute_loss_q ::
  "('d, 'a, 'v, 'n) ActorCritic \<Rightarrow> ('d, 'a, 'v, 'sd) SACAgent \<Rightarrow> 'v heap \<Rightarrow>
   (string \<rightharpoonup> ('d, 'a) tensor) \<Rightarrow> 'n \<Rightarrow> error + real" where
  "compute_loss_q net agent h data eps =
     and_then (lookup data ''obs'') (\<lambda>o1.
     and_then (lookup data ''act'') (\<lambda>a.
     and_then (lookup data ''rew'') (\<lambda>r0.
     and_then (lookup data ''obs2'') (\<lambda>o2.
     and_then (lookup data ''done'') (\<lambda>d0.
     and_then (as_numbers r0) (\<lambda>r.
     and_then (as_numbers d0) (\<lambda>d.
       let q1 = ac_q1 net (parameter_values h (actor_critic agent)) o1 a;
           q2 = ac_q2 net (parameter_values h (actor_critic agent)) o1 a;
           (a2, logp_a2) = ac_pi net (parameter_values h (actor_critic agent)) o2 eps;
           q1_pi_targ = ac_q1 net (parameter_values h (actor_critic_target agent)) o2 a2;
           q2_pi_targ = ac_q2 net (parameter_values h (actor_critic_target agent)) o2 a2
       in
       and_then (broadcast min q1_pi_targ q2_pi_targ) (\<lambda>q_pi_targ.
       and_then (broadcast (-) q_pi_targ (map (\<lambda>x. alpha (cfg agent) * x) logp_a2)) (\<lambda>soft.
       and_then (broadcast (*) (map (\<lambda>x. gamma (cfg agent) * (1 - x)) d) soft) (\<lambda>disc.
       and_then (broadcast (+) r disc) (\<lambda>backup.
       and_then (case weights (replay_buffer agent) of
                   None \<Rightarrow> Inl AttributeError | Some w \<Rightarrow> Inr w) (\<lambda>w.
       and_then (broadcast (-) q1 backup) (\<lambda>e1.
       and_then (broadcast (*) w (map (\<lambda>x. x ^ 2) e1)) (\<lambda>l1.
       and_then (tensor_mean l1) (\<lambda>loss_q1.
       and_then (broadcast (-) q2 backup) (\<lambda>e2.
       and_then (broadcast (*) w (map (\<lambda>x. x ^ 2) e2)) (\<lambda>l2.
       and_then (tensor_mean l2) (\<lambda>loss_q2.
         Inr (loss_q1 + loss_q2)))))))))))))))))))"

definition compute_loss_pi ::
  "('d, 'a, 'v, 'n) ActorCritic \<Rightarrow> ('d, 'a, 'v, 'sd) SACAgent \<Rightarrow> 'v heap \<Rightarrow>
   (string \<rightharpoonup> ('d, 'a) tensor) \<Rightarrow> 'n \<Rightarrow> error + real" where
  "compute_loss_pi net agent h data eps =
     and_then (lookup data ''obs'') (\<lambda>o1.
       let (pi1, logp_pi) = ac_pi net (parameter_values h (actor_critic agent)) o1 eps;
           q1_pi = ac_q1 net (parameter_values h (actor_critic agent)) o1 pi1;
           q2_pi = ac_q2 net (parameter_values h (actor_critic agent)) o1 pi1
       in
       and_then (broadcast min q1_pi q2_pi) (\<lambda>q_pi.
       and_then (broadcast (-) (map (\<lambda>x. alpha (cfg agent) * x) logp_pi) q_pi) (\<lambda>l.
       and_then (tensor_mean l) (\<lambda>loss_pi.
         Inr loss_pi))))"

subsection \<open>The Q-loss on float32 values\<close>






subsection \<open>update\<close>

text \<open>
  The stages of \<open>update\<close>, in the order of the source. \<open>dq\<close> and \<open>dpi\<close> are the
  gradients that autograd computes for the two losses.
\<close>

definition q_step ::
  "('d, 'a, 'v::real_vector, 'n) ActorCritic \<Rightarrow> ('d, 'a, 'v, 'sd) SACAgent \<Rightarrow>
   (string \<rightharpoonup> ('d, 'a) tensor) \<Rightarrow> 'n \<Rightarrow> ('v heap \<Rightarrow> nat \<Rightarrow> 'v option) \<Rightarrow>
   'v heap \<Rightarrow> error + 'v heap" where
  "q_step net agent data eps dq h =
     (let h1 = zero_grad (q_optimizer agent) h in
      and_then (compute_loss_q net agent h1 data eps) (\<lambda>loss_q.
        let h2 = backward (dq h1) h1
        in Inr (optimizer_step (q_optimizer agent) h2)))"

definition freeze_q :: "('d, 'a, 'v, 'sd) SACAgent \<Rightarrow> 'v heap \<Rightarrow> 'v heap" where
  "freeze_q agent h = set_requires_grad (q_params agent) False h"

definition pi_step ::
  "('d, 'a, 'v::real_vector, 'n) ActorCritic \<Rightarrow> ('d, 'a, 'v, 'sd) SACAgent \<Rightarrow>
   (string \<rightharpoonup> ('d, 'a) tensor) \<Rightarrow> 'n \<Rightarrow> ('v heap \<Rightarrow> nat \<Rightarrow> 'v option) \<Rightarrow>
   'v heap \<Rightarrow> error + 'v heap" where
  "pi_step net agent data eps dpi h =
     (let h1 = zero_grad (pi_optimizer agent) h in
      and_then (compute_loss_pi net agent h1 data eps) (\<lambda>loss_pi.
        let h2 = backward (dpi h1) h1
        in Inr (optimizer_step (pi_optimizer agent) h2)))"

definition unfreeze_q :: "('d, 'a, 'v, 'sd) SACAgent \<Rightarrow> 'v heap \<Rightarrow> 'v heap" where
  "unfreeze_q agent h = set_requires_grad (q_params agent) True h"

definition target_step :: "('d, 'a, 'v::real_vector, 'sd) SACAgent \<Rightarrow> 'v heap \<Rightarrow> 'v heap" where
  "target_step agent h =
     polyak_average (polyak (cfg agent))
       (zip (actor_critic agent) (actor_critic_target agent)) h"

definition update ::
  "('d, 'a, 'v::real_vector, 'n) ActorCritic \<Rightarrow> ('d, 'a, 'v, 'sd) SACAgent \<Rightarrow>
   (string \<rightharpoonup> ('d, 'a) tensor) \<Rightarrow> 'n \<Rightarrow> 'n \<Rightarrow>
   ('v heap \<Rightarrow> nat \<Rightarrow> 'v option) \<Rightarrow> ('v heap \<Rightarrow> nat \<Rightarrow> 'v option) \<Rightarrow>
   'v heap \<Rightarrow> error + 'v heap" where
  "update net agent data eps_q eps_pi dq dpi h =
     and_then (q_step net agent data eps_q dq h) (\<lambda>h3.
     and_then (pi_step net agent data eps_pi dpi (freeze_q agent h3)) (\<lambda>h7.
       Inr (target_step agent (unfreeze_q agent h7))))"

section \<open>The formulas of the specification\<close>

text \<open>
  The Bellman backup of row \<open>i\<close>, in the words of the specification:
  \<open>r + gamma * (1 - done) * (min(Q1_targ, Q2_targ) - alpha * log pi)\<close>.
\<close>

definition spec_bellman_backup ::
  "real \<Rightarrow> real \<Rightarrow> real list \<Rightarrow> real list \<Rightarrow> real list \<Rightarrow> real list \<Rightarrow> real list \<Rightarrow>
   nat \<Rightarrow> real" where
  "spec_bellman_backup gam alph r d q1_targ q2_targ logp_a2 i =
     r ! i + gam * (1 - d ! i) * (min (q1_targ ! i) (q2_targ ! i) - alph * logp_a2 ! i)"

text \<open>The mean over \<open>n\<close> rows of the squared error, each row scaled by its weight.\<close>

definition spec_weighted_mse :: "real list \<Rightarrow> real list \<Rightarrow> (nat \<Rightarrow> real) \<Rightarrow> nat \<Rightarrow> real" where
  "spec_weighted_mse w q target n = (\<Sum>i<n. w ! i * (q ! i - target i) ^ 2) / real n"

text \<open>The mean over \<open>n\<close> rows of \<open>alpha * log pi - min(Q1, Q2)\<close>.\<close>

definition spec_policy_loss ::
  "real \<Rightarrow> real list \<Rightarrow> real list \<Rightarrow> real list \<Rightarrow> nat \<Rightarrow> real" where
  "spec_policy_loss alph logp_pi q1_pi q2_pi n =
     (\<Sum>i<n. alph * logp_pi ! i - min (q1_pi ! i) (q2_pi ! i)) / real n"

section \<open>Example values\<close>

definition example_step :: "real \<Rightarrow> (nat, nat) step_dict" where
  "example_step r =
     \<lparr>v_obs = (Tensor True 0, NdArray 1), v_next_obs = (Tensor False 2, NdArray 3),
      v_act = \<lparr>action = 7\<rparr>, v_rew = r, v_done = 0\<rparr>"

definition example_buffer :: "(nat, nat) SimpleReplayBuffer" where
  "example_buffer =
     \<lparr>max_size = 2, obs_dim = 4, act_dim = 1, batch_size = 2,
      buffer = \<lparr>maxlen = 2, items = []\<rparr>, weights = None\<rparr>"

definition example_config :: config where
  "example_config =
     \<lparr>start_steps = 1000, gamma = 1 / 2, alpha = 1, polyak = 3 / 4,
      use_encoder_type = ''vae'', encoder_switch = True,
      encoder_sections =
        [''vae'' \<mapsto> \<lparr>speed_hiddens = [8, 8], latent_dims = 32, im_c = 3, im_h = 42,
                     im_w = 144, vae_chkpt_statedict = ''vae.statedict''\<rparr>]\<rparr>"

definition example_optimizer :: "nat list \<Rightarrow> real optimizer" where
  "example_optimizer ps =
     \<lparr>param_group = ps, step_rule = (\<lambda>p x g. x - g / 10), set_to_none = True\<rparr>"

definition example_agent :: "(nat, nat, real, nat) SACAgent" where
  "example_agent =
     \<lparr>cfg = example_config, self_t = 0, deterministic = False, transition_actor = [],
      feat_dim = None, agent_obs_dim = None, backbone = None,
      replay_buffer = example_buffer\<lparr>weights := Some [1, 1]\<rparr>,
      actor_critic = [0, 1, 2], actor_critic_target = [3, 4, 5], q_params = [0, 1],
      q_optimizer = example_optimizer [0, 1], pi_optimizer = example_optimizer [2]\<rparr>"

definition example_heap :: "real heap" where
  "example_heap p = \<lparr>p_data = real p, requires_grad = True, grad = None\<rparr>"

definition example_net :: "(nat, nat, real, nat) ActorCritic" where
  "example_net =
     \<lparr>ac_pi = (\<lambda>vs x eps. (ActT [eps, eps], [- 1, - 2])),
      ac_q1 = (\<lambda>vs x a. [vs ! 0, vs ! 0 + 1]),
      ac_q2 = (\<lambda>vs x a. [vs ! 1, vs ! 1 + 1])\<rparr>"

definition example_data :: "string \<rightharpoonup> (nat, nat) tensor" where
  "example_data =
     [''obs'' \<mapsto> ObsT [(NdArray 0, NdArray 1), (NdArray 2, NdArray 3)],
      ''obs2'' \<mapsto> ObsT [(NdArray 2, NdArray 3), (NdArray 4, NdArray 5)],
      ''act'' \<mapsto> ActT [7, 7],
      ''rew'' \<mapsto> NumT [1, 2],
      ''done'' \<mapsto> NumT [0, 1]]"

definition example_act :: "real list \<Rightarrow> nat \<Rightarrow> bool \<Rightarrow> nat \<Rightarrow> nat" where
  "example_act vs obs det noise = (if det then obs else obs + noise)"

definition example_load :: "string \<Rightarrow> error + nat" where
  "example_load path = (if path = ''vae.statedict'' then Inr 11 else Inl IOError)"

definition example_load_state_dict :: "nat VAE \<Rightarrow> nat \<Rightarrow> error + nat VAE" where
  "example_load_state_dict vae sd = Inr (vae\<lparr>vae_state := Some sd\<rparr>)"

definition example_full_buffer :: "(nat, nat) SimpleReplayBuffer" where
  "example_full_buffer = store_all example_buffer [Dict (example_step 1), Dict (example_step 2)]"

definition example_pair_buffer :: "(nat, nat) SimpleReplayBuffer" where
  "example_pair_buffer = store_all example_buffer [Dict (example_step 3), Dict (example_step 4)]"

text \<open>
  Gradients for the example, and the heaps after its two gradient steps.
\<close>

definition example_dq :: "real heap \<Rightarrow> nat \<Rightarrow> real option" where
  "example_dq h p = (if p < 2 then Some 10 else None)"

definition example_dpi :: "real heap \<Rightarrow> nat \<Rightarrow> real option" where
  "example_dpi h p = (if p < 3 then Some 20 else None)"

definition example_h3 :: "real heap" where
  "example_h3 = optimizer_step (q_optimizer example_agent)
     (backward (example_dq (zero_grad (q_optimizer example_agent) example_heap))
        (zero_grad (q_optimizer example_agent) example_heap))"

definition example_h7 :: "real heap" where
  "example_h7 = optimizer_step (pi_optimizer example_agent)
     (backward
        (example_dpi (zero_grad (pi_optimizer example_agent) (freeze_q example_agent example_h3)))
        (zero_grad (pi_optimizer example_agent) (freeze_q example_agent example_h3)))"














section \<open>The deque keeps the most recent elements\<close>

lemma most_recent_length: "length (most_recent n xs) = min n (length xs)"
  by (simp add: most_recent_def)

lemma most_recent_fits: "length xs \<le> n \<Longrightarrow> most_recent n xs = xs"
  by (simp add: most_recent_def)

lemma most_recent_append:
  "most_recent n (most_recent n xs @ ys) = most_recent n (xs @ ys)"
proof (cases "length xs \<le> n")
  case True
  then show ?thesis by (simp add: most_recent_def)
next
  case False
  then have "length xs - n + n = length xs" by simp
  then show ?thesis
    using False by (simp add: most_recent_def add.commute)
qed

lemma tl_most_recent:
  "length xs = m \<Longrightarrow> tl (xs @ [x]) = most_recent m (xs @ [x])"
proof -
  have "tl zs = drop (Suc 0) zs" for zs :: "'a list"
    by (simp add: drop_Suc)
  then show "length xs = m \<Longrightarrow> tl (xs @ [x]) = most_recent m (xs @ [x])"
    by (simp add: most_recent_def del: drop_append)
qed

lemma deque_append_maxlen: "maxlen (deque_append q x) = maxlen q"
  by (simp add: deque_append_def Let_def)

lemma deque_append_items:
  assumes "length (items q) \<le> maxlen q"
  shows "items (deque_append q x) = most_recent (maxlen q) (items q @ [x])"
proof (cases "length (items q) = maxlen q")
  case True
  then show ?thesis
    by (simp add: deque_append_def tl_most_recent)
next
  case False
  with assms have "length (items q) < maxlen q" by simp
  then show ?thesis
    by (simp add: deque_append_def most_recent_def)
qed

lemma deque_append_bounded:
  "length (items q) \<le> maxlen q \<Longrightarrow> length (items (deque_append q x)) \<le> maxlen q"
  by (simp add: deque_append_items most_recent_length)

lemma deque_extend_maxlen: "maxlen (deque_extend q xs) = maxlen q"
  by (induction xs arbitrary: q) (simp_all add: deque_append_maxlen)

lemma deque_extend_items:
  "length (items q) \<le> maxlen q \<Longrightarrow>
   items (deque_extend q xs) = most_recent (maxlen q) (items q @ xs)"
proof (induction xs arbitrary: q)
  case Nil
  then show ?case by (simp add: most_recent_fits)
next
  case (Cons x xs)
  let ?q = "deque_append q x"
  have bounded: "length (items ?q) \<le> maxlen ?q"
    using Cons.prems by (simp only: deque_append_maxlen deque_append_bounded)
  have "items (deque_extend q (x # xs)) = items (deque_extend ?q xs)"
    by simp
  also have "\<dots> = most_recent (maxlen ?q) (items ?q @ xs)"
    using bounded by (rule Cons.IH)
  also have "\<dots> = most_recent (maxlen q) (most_recent (maxlen q) (items q @ [x]) @ xs)"
    using Cons.prems by (simp only: deque_append_maxlen deque_append_items)
  also have "\<dots> = most_recent (maxlen q) (items q @ x # xs)"
    by (simp add: most_recent_append)
  finally show ?case .
qed

lemma deque_extend_append:
  "deque_extend q (xs @ ys) = deque_extend (deque_extend q xs) ys"
  by (induction xs arbitrary: q) simp_all

lemma store_offers:
  "buffer (snd (store b v)) = deque_extend (buffer b) (offered v)"
  by (cases v) (simp_all add: Let_def)

lemma store_all_offers:
  "buffer (store_all b vs) = deque_extend (buffer b) (concat (map offered vs))"
  by (induction vs arbitrary: b) (simp_all add: store_offers deque_extend_append)

lemma init_buffer:
  "SimpleReplayBuffer_init od ad sz bs = Inr b \<Longrightarrow>
   0 \<le> sz \<and> maxlen (buffer b) = nat sz \<and> items (buffer b) = []"
  by (auto simp: SimpleReplayBuffer_init_def deque_new_def split: if_splits)

section \<open>The replay buffer is first-in-first-out with a fixed capacity\<close>

lemma store_all_items:
  assumes "SimpleReplayBuffer_init od ad sz bs = Inr b0"
  shows "items (buffer (store_all b0 vs)) = most_recent (nat sz) (concat (map offered vs))"
  using init_buffer [OF assms]
  by (simp add: store_all_offers deque_extend_items)

lemma store_all_maxlen:
  assumes "SimpleReplayBuffer_init od ad sz bs = Inr b0"
  shows "maxlen (buffer (store_all b0 vs)) = nat sz"
  using init_buffer [OF assms]
  by (simp add: store_all_offers deque_extend_maxlen)

lemma store_dict_full:
  assumes "length (items (buffer b)) = maxlen (buffer b)"
  shows "items (buffer (snd (store b (Dict vals)))) = tl (items (buffer b) @ offered (Dict vals))"
  using assms by (simp add: Let_def deque_append_def)

lemma store_any_items:
  assumes "length (items (buffer b)) \<le> maxlen (buffer b)"
  shows "items (buffer (snd (store b v))) =
           most_recent (maxlen (buffer b)) (items (buffer b) @ offered v)"
  using assms by (simp add: store_offers deque_extend_items)

text \<open>
  C5. Let a buffer be constructed with capacity \<open>sz\<close> and let any sequence of
  \<open>store\<close> calls run on it (dicts, other buffers, rejected values). Then its length
  is at most \<open>sz\<close>, and its contents are the last \<open>sz\<close> of all the elements the
  calls offered, in the order in which they were offered. When the buffer is full,
  storing one more transition drops exactly the element at the front: the new contents
  are the old ones followed by the new element, without the first (for a positive
  capacity, the old contents without their oldest element, followed by the new one).
  A store of any kind leaves the last \<open>sz\<close> elements of the old contents followed by
  what the call offers: a store of another buffer drops from the front as many elements
  as exceed the capacity, a rejected value drops none.
\<close>

theorem store_fifo_capacity:
  assumes "SimpleReplayBuffer_init od ad sz bs = Inr b0"
  shows "int (len (store_all b0 vs)) \<le> sz \<and>
         items (buffer (store_all b0 vs)) = most_recent (nat sz) (concat (map offered vs)) \<and>
         (int (len (store_all b0 vs)) = sz \<longrightarrow>
            items (buffer (snd (store (store_all b0 vs) (Dict vals)))) =
              tl (items (buffer (store_all b0 vs)) @ offered (Dict vals)) \<and>
            (0 < sz \<longrightarrow>
               items (buffer (snd (store (store_all b0 vs) (Dict vals)))) =
                 tl (items (buffer (store_all b0 vs))) @ offered (Dict vals))) \<and>
         items (buffer (snd (store (store_all b0 vs) v))) =
           most_recent (nat sz) (items (buffer (store_all b0 vs)) @ offered v)"
proof -
  let ?b = "store_all b0 vs"
  have nonneg: "0 \<le> sz"
    using init_buffer [OF assms] by simp
  have its: "items (buffer ?b) = most_recent (nat sz) (concat (map offered vs))"
    by (rule store_all_items [OF assms])
  have bound: "int (len ?b) \<le> sz"
    using nonneg by (simp add: len_def its most_recent_length)
  have full: "items (buffer (snd (store ?b (Dict vals)))) =
                tl (items (buffer ?b) @ offered (Dict vals))"
    if "int (len ?b) = sz"
  proof (rule store_dict_full)
    show "length (items (buffer ?b)) = maxlen (buffer ?b)"
      using that nonneg by (simp add: len_def store_all_maxlen [OF assms])
  qed
  have front: "tl (items (buffer ?b) @ offered (Dict vals)) =
                 tl (items (buffer ?b)) @ offered (Dict vals)"
    if "int (len ?b) = sz" "0 < sz"
  proof -
    from that have "items (buffer ?b) \<noteq> []"
      by (auto simp: len_def)
    then show ?thesis by simp
  qed
  have "length (items (buffer ?b)) \<le> maxlen (buffer ?b)"
    using bound nonneg by (simp add: len_def store_all_maxlen [OF assms])
  then have any: "items (buffer (snd (store ?b v))) =
                    most_recent (nat sz) (items (buffer ?b) @ offered v)"
    using store_any_items [of ?b v] by (simp only: store_all_maxlen [OF assms])
  show ?thesis
    using its bound full front any by simp
qed

theorem store_fifo_capacity_witness:
  "SimpleReplayBuffer_init 4 1 2 2 = Inr example_buffer \<and>
   int (len (store_all example_buffer [Dict (example_step 1), Dict (example_step 2)])) = 2 \<and>
   map t_rew (items (buffer (store_all example_buffer
      [Dict (example_step 1), Dict (example_step 2)]))) = [1, 2] \<and>
   map t_rew (items (buffer (snd (store
      (store_all example_buffer [Dict (example_step 1), Dict (example_step 2)])
      (Dict (example_step 3)))))) = [2, 3]"
proof -
  have init: "SimpleReplayBuffer_init 4 1 2 2 = Inr example_buffer"
    by (simp add: SimpleReplayBuffer_init_def deque_new_def example_buffer_def)
  let ?vs = "[Dict (example_step 1), Dict (example_step 2)]"
  let ?b = "store_all example_buffer ?vs"
  note fifo = store_fifo_capacity [OF init, of ?vs "example_step 3"]
  have its: "map t_rew (items (buffer ?b)) = [1, 2]"
    by (simp add: example_buffer_def example_step_def deque_append_def Let_def)
  have full: "int (len ?b) = 2"
    using arg_cong [OF its, of length] by (simp add: len_def)
  have pos: "(0::int) < 2"
    by simp
  from fifo full pos
  have "items (buffer (snd (store ?b (Dict (example_step 3))))) =
          tl (items (buffer ?b)) @ offered (Dict (example_step 3))"
    by blast
  then have "map t_rew (items (buffer (snd (store ?b (Dict (example_step 3)))))) =
          tl (map t_rew (items (buffer ?b))) @ map t_rew (offered (Dict (example_step 3)))"
    by (simp only: map_append map_tl)
  then have "map t_rew (items (buffer (snd (store ?b (Dict (example_step 3)))))) = [2, 3]"
    by (simp only: its) (simp add: example_step_def)
  with init full its show ?thesis
    by blast
qed

text \<open>
  A store of a buffer of two elements into the full buffer \<open>[1, 2]\<close> leaves
  \<open>[3, 4]\<close>: it drops two elements, not the oldest one only.
\<close>

theorem store_buffer_into_full_counterexample:
  "int (len example_full_buffer) = max_size example_full_buffer \<and>
   map t_rew (items (buffer example_full_buffer)) = [1, 2] \<and>
   map t_rew (items (buffer example_pair_buffer)) = [3, 4] \<and>
   map t_rew (items (buffer (snd (store example_full_buffer (Buffer example_pair_buffer))))) =
     [3, 4] \<and>
   items (buffer (snd (store example_full_buffer (Buffer example_pair_buffer)))) \<noteq>
     tl (items (buffer example_full_buffer)) @ items (buffer example_pair_buffer)"
  by (simp add: example_full_buffer_def example_pair_buffer_def example_buffer_def
        example_step_def len_def deque_append_def Let_def)

section \<open>What store accepts\<close>

text \<open>
  C8. A value that is neither a dict nor a buffer of the same class makes \<open>store\<close>
  raise, and the buffer is left as it was. A buffer of the same class has all its
  elements appended, in their stored order, under the capacity of the receiving deque:
  the new contents are the last \<open>maxlen\<close> elements of the old contents followed by
  the other buffer's, and exactly that concatenation when it fits.
\<close>

theorem store_rejects_or_extends:
  "store b (OtherValue x) = (Some InvalidInputType, b) \<and>
   fst (store b (Buffer other)) = None \<and>
   (length (items (buffer b)) \<le> maxlen (buffer b) \<longrightarrow>
      items (buffer (snd (store b (Buffer other)))) =
        most_recent (maxlen (buffer b)) (items (buffer b) @ items (buffer other)) \<and>
      (length (items (buffer b)) + length (items (buffer other)) \<le> maxlen (buffer b) \<longrightarrow>
         items (buffer (snd (store b (Buffer other)))) =
           items (buffer b) @ items (buffer other)))"
  by (simp add: deque_extend_items most_recent_fits)

theorem store_rejects_or_extends_witness:
  "store example_buffer (OtherValue (PyString ''x'')) = (Some InvalidInputType, example_buffer) \<and>
   map t_rew (items (buffer (snd (store example_buffer
      (Buffer (snd (store example_buffer (Dict (example_step 5))))))))) = [5]"
proof -
  let ?other = "snd (store example_buffer (Dict (example_step 5)))"
  have other: "map t_rew (items (buffer ?other)) = [5]"
    by (simp add: example_buffer_def example_step_def deque_append_def Let_def)
  have len_other: "length (items (buffer ?other)) = 1"
    using arg_cong [OF other, of length] by simp
  have empty: "items (buffer example_buffer) = []" "maxlen (buffer example_buffer) = 2"
    by (simp_all add: example_buffer_def)
  note st = store_rejects_or_extends [of example_buffer "PyString ''x''" ?other]
  have fits: "length (items (buffer example_buffer)) + length (items (buffer ?other))
                \<le> maxlen (buffer example_buffer)"
    by (simp only: empty len_other) simp
  have bounded: "length (items (buffer example_buffer)) \<le> maxlen (buffer example_buffer)"
    by (simp only: empty) simp
  from st bounded fits
  have "items (buffer (snd (store example_buffer (Buffer ?other)))) =
          items (buffer example_buffer) @ items (buffer ?other)"
    by blast
  then have "map t_rew (items (buffer (snd (store example_buffer (Buffer ?other))))) = [5]"
    by (simp only: empty append_Nil other)
  then show ?thesis
    using st by blast
qed

section \<open>The step counter and the choice of the action\<close>

lemma run_calls_learner:
  assumes "start_steps (cfg agent) < self_t agent" and "deterministic agent"
    and "start_steps (cfg agent) < 1000000"
  shows "fst (run_calls encode_fn act_fn h agent calls) =
         concat (map (learner_outcome encode_fn act_fn (parameter_values h (actor_critic agent))) calls)"
  using assms
proof (induction calls arbitrary: agent)
  case Nil
  show ?case by simp
next
  case (Cons c calls)
  show ?case
  proof (cases c)
    case (SelectAction obs encode noise sampled)
    let ?agent1 = "agent\<lparr>transition_actor := ''learner'', self_t := self_t agent + 1\<rparr>"
    have sel: "select_action encode_fn act_fn h agent obs encode noise sampled =
      (act_fn (parameter_values h (actor_critic agent)) (if encode then encode_fn obs else obs) True noise, ?agent1)"
      using Cons.prems by (simp add: select_action_def Let_def)
    have "start_steps (cfg ?agent1) < self_t ?agent1" "deterministic ?agent1"
      "start_steps (cfg ?agent1) < 1000000"
      using Cons.prems by simp_all
    from Cons.IH [OF this]
    show ?thesis
      by (simp add: SelectAction sel case_prod_beta)
  next
    case (RegisterReset obs)
    let ?agent1 = "register_reset agent obs"
    have "start_steps (cfg ?agent1) < self_t ?agent1" "deterministic ?agent1"
      "start_steps (cfg ?agent1) < 1000000"
      using Cons.prems by (simp_all add: register_reset_def)
    from Cons.IH [OF this]
    show ?thesis
      by (simp add: RegisterReset register_reset_def)
  qed
qed

text \<open>
  C7. After \<open>register_reset\<close>, with \<open>start_steps\<close> below \<open>1e6\<close>, every later
  \<open>select_action\<close> (whatever calls of \<open>select_action\<close> and \<open>register_reset\<close>
  come in between) returns the action of the learned policy taken with
  \<open>deterministic = True\<close> and records the actor \<open>learner\<close>; none returns the random
  sample.
\<close>

theorem after_register_reset_learner:
  assumes "start_steps (cfg agent) < 1000000"
  shows "fst (run_calls encode_fn act_fn h (register_reset agent obs) calls) =
         concat (map (learner_outcome encode_fn act_fn
                        (parameter_values h (actor_critic agent))) calls)"
proof -
  let ?agent1 = "register_reset agent obs"
  have "start_steps (cfg ?agent1) < self_t ?agent1" "deterministic ?agent1"
    "start_steps (cfg ?agent1) < 1000000"
    using assms by (simp_all add: register_reset_def)
  from run_calls_learner [OF this]
  show ?thesis
    by (simp add: register_reset_def)
qed

theorem after_register_reset_learner_witness:
  "start_steps (cfg example_agent) < 1000000 \<and>
   fst (run_calls id example_act example_heap (register_reset example_agent (0::nat))
          [SelectAction 5 True 3 99, RegisterReset 1, SelectAction 6 False 4 98]) =
     [(5, ''learner''), (6, ''learner'')]"
proof -
  have small: "start_steps (cfg example_agent) < 1000000"
    by (simp add: example_agent_def example_config_def)
  show ?thesis
    using small
      after_register_reset_learner [OF small, of id example_act example_heap "0::nat"
        "[SelectAction 5 True 3 99, RegisterReset 1, SelectAction 6 False 4 98]"]
    by (simp add: example_act_def)
qed

section \<open>The vision encoder\<close>

text \<open>
  C9. \<open>setup_vision_encoder\<close> supports the encoder type \<open>vae\<close> only. For any other
  configured type it fails with an assertion error and leaves the agent as it was, so no
  backbone has been constructed. When it succeeds, the type is \<open>vae\<close> and the
  backbone is the \<open>VAE\<close> built from the dimensions of the \<open>vae\<close> section, with the
  state dict of the configured checkpoint loaded, moved to the device.
\<close>

theorem setup_vision_encoder_only_vae:
  "(use_encoder_type (cfg agent) \<noteq> ''vae'' \<longrightarrow>
      setup_vision_encoder torch_load load_state_dict agent = (Some AssertionError, agent)) \<and>
   (fst (setup_vision_encoder torch_load load_state_dict agent) = None \<longrightarrow>
      use_encoder_type (cfg agent) = ''vae'' \<and>
      (\<exists>vsec sd vae1.
         encoder_sections (cfg agent) ''vae'' = Some vsec \<and>
         torch_load (vae_chkpt_statedict vsec) = Inr sd \<and>
         load_state_dict
           \<lparr>vae_im_c = im_c vsec, vae_im_h = im_h vsec, vae_im_w = im_w vsec,
            vae_z_dim = latent_dims vsec, vae_state = None, vae_on_device = False\<rparr> sd = Inr vae1 \<and>
         backbone (snd (setup_vision_encoder torch_load load_state_dict agent)) =
           Some (vae1\<lparr>vae_on_device := True\<rparr>)))"
  by (auto simp: setup_vision_encoder_def Let_def section_of_def lookup_def and_then_def
           split: sum.splits if_splits option.splits)

theorem setup_vision_encoder_only_vae_witness:
  "use_encoder_type (cfg (example_agent\<lparr>cfg := example_config\<lparr>use_encoder_type := ''resnet''\<rparr>\<rparr>))
     \<noteq> ''vae'' \<and>
   setup_vision_encoder example_load example_load_state_dict
     (example_agent\<lparr>cfg := example_config\<lparr>use_encoder_type := ''resnet''\<rparr>\<rparr>) =
     (Some AssertionError, example_agent\<lparr>cfg := example_config\<lparr>use_encoder_type := ''resnet''\<rparr>\<rparr>) \<and>
   fst (setup_vision_encoder example_load example_load_state_dict example_agent) = None \<and>
   use_encoder_type (cfg example_agent) = ''vae'' \<and>
   backbone (snd (setup_vision_encoder example_load example_load_state_dict example_agent)) =
     Some \<lparr>vae_im_c = 3, vae_im_h = 42, vae_im_w = 144, vae_z_dim = 32,
           vae_state = Some 11, vae_on_device = True\<rparr>"
proof -
  let ?other = "example_agent\<lparr>cfg := example_config\<lparr>use_encoder_type := ''resnet''\<rparr>\<rparr>"
  have other: "use_encoder_type (cfg ?other) \<noteq> ''vae''"
    by simp
  have ok: "fst (setup_vision_encoder example_load example_load_state_dict example_agent) = None"
    by (simp add: setup_vision_encoder_def example_agent_def example_config_def
          section_of_def lookup_def last_item_def and_then_def example_load_def
          example_load_state_dict_def)
  have sec: "encoder_sections (cfg example_agent) ''vae'' =
      Some \<lparr>speed_hiddens = [8, 8], latent_dims = 32, im_c = 3, im_h = 42,
                     im_w = 144, vae_chkpt_statedict = ''vae.statedict''\<rparr>"
    by (simp add: example_agent_def example_config_def)
  from setup_vision_encoder_only_vae [of ?other example_load example_load_state_dict] other
  have rejected: "setup_vision_encoder example_load example_load_state_dict ?other =
      (Some AssertionError, ?other)"
    by blast
  from setup_vision_encoder_only_vae [of example_agent example_load example_load_state_dict] ok
  obtain vsec sd vae1 where
    "use_encoder_type (cfg example_agent) = ''vae''"
    "encoder_sections (cfg example_agent) ''vae'' = Some vsec"
    "example_load (vae_chkpt_statedict vsec) = Inr sd"
    "example_load_state_dict
           \<lparr>vae_im_c = im_c vsec, vae_im_h = im_h vsec, vae_im_w = im_w vsec,
            vae_z_dim = latent_dims vsec, vae_state = None, vae_on_device = False\<rparr> sd = Inr vae1"
    "backbone (snd (setup_vision_encoder example_load example_load_state_dict example_agent)) =
           Some (vae1\<lparr>vae_on_device := True\<rparr>)"
    by blast
  then have "use_encoder_type (cfg example_agent) = ''vae''"
    "backbone (snd (setup_vision_encoder example_load example_load_state_dict example_agent)) =
     Some \<lparr>vae_im_c = 3, vae_im_h = 42, vae_im_w = 144, vae_z_dim = 32,
           vae_state = Some 11, vae_on_device = True\<rparr>"
    using sec by (auto simp: example_load_def example_load_state_dict_def)
  with other rejected ok show ?thesis
    by blast
qed

section \<open>The losses\<close>

lemma and_then_Inr [simp]: "and_then (Inr x) f = f x"
  by (simp add: and_then_def)

lemma and_then_Inl [simp]: "and_then (Inl e) f = Inl e"
  by (simp add: and_then_def)

lemma and_then_eq_Inr:
  "and_then m f = Inr y \<longleftrightarrow> (\<exists>x. m = Inr x \<and> f x = Inr y)"
  by (cases m) simp_all

lemma broadcast_same:
  "length xs = length ys \<Longrightarrow> broadcast f xs ys = Inr (map2 f xs ys)"
  by (simp add: broadcast_def)

lemma sum_list_nth_eq:
  assumes "length xs = n" and "\<And>i. i < n \<Longrightarrow> xs ! i = f i"
  shows "sum_list xs = (\<Sum>i<n. f i)"
proof -
  have "sum_list xs = (\<Sum>i = 0..<length xs. xs ! i)"
    by (rule sum_list_sum_nth)
  also have "\<dots> = (\<Sum>i<n. xs ! i)"
    using assms(1) by (simp add: lessThan_atLeast0)
  also have "\<dots> = (\<Sum>i<n. f i)"
    using assms(2) by (intro sum.cong) simp_all
  finally show ?thesis .
qed

lemma tensor_mean_nth:
  assumes "length xs = n" and "0 < n" and "\<And>i. i < n \<Longrightarrow> xs ! i = f i"
  shows "tensor_mean xs = Inr ((\<Sum>i<n. f i) / real n)"
proof -
  have "xs \<noteq> []" using assms(1,2) by auto
  then show ?thesis
    using sum_list_nth_eq [OF assms(1,3)] assms(1) by (simp add: tensor_mean_def)
qed

text \<open>
  C3. For a batch of \<open>n\<close> rows, \<open>compute_loss_pi\<close> returns the mean over the rows
  of \<open>alpha * log pi(a | o) - min(Q1(o, a), Q2(o, a))\<close>, where the actions \<open>a\<close> and
  their log-probabilities come from the current policy on the batch observations and
  both Q values from the current Q networks.
\<close>

theorem compute_loss_pi_objective:
  assumes "data ''obs'' = Some o1"
    and "ac_pi net (parameter_values h (actor_critic agent)) o1 eps = (pi1, logp_pi)"
    and "ac_q1 net (parameter_values h (actor_critic agent)) o1 pi1 = q1_pi"
    and "ac_q2 net (parameter_values h (actor_critic agent)) o1 pi1 = q2_pi"
    and "0 < n" and "length logp_pi = n" and "length q1_pi = n" and "length q2_pi = n"
  shows "compute_loss_pi net agent h data eps =
           Inr (spec_policy_loss (alpha (cfg agent)) logp_pi q1_pi q2_pi n)"
proof -
  let ?l = "map2 (-) (map (\<lambda>x. alpha (cfg agent) * x) logp_pi) (map2 min q1_pi q2_pi)"
  have len: "length ?l = n"
    using assms by simp
  have mean: "tensor_mean ?l = Inr (spec_policy_loss (alpha (cfg agent)) logp_pi q1_pi q2_pi n)"
    unfolding spec_policy_loss_def
    using len \<open>0 < n\<close>
  proof (rule tensor_mean_nth)
    fix i assume "i < n"
    then show "?l ! i = alpha (cfg agent) * logp_pi ! i - min (q1_pi ! i) (q2_pi ! i)"
      using assms by simp
  qed
  show ?thesis
    using assms mean
    by (simp add: compute_loss_pi_def lookup_def broadcast_same)
qed

theorem compute_loss_pi_objective_witness:
  "compute_loss_pi example_net example_agent example_heap example_data 0 = Inr (- 2)"
proof -
  have "compute_loss_pi example_net example_agent example_heap example_data 0 =
          Inr (spec_policy_loss (alpha (cfg example_agent)) [- 1, - 2] [0, 1] [1, 2] 2)"
  proof (rule compute_loss_pi_objective)
    show "example_data ''obs'' = Some (ObsT [(NdArray 0, NdArray 1), (NdArray 2, NdArray 3)])"
      by (simp add: example_data_def)
    show "ac_pi example_net (parameter_values example_heap (actor_critic example_agent))
            (ObsT [(NdArray 0, NdArray 1), (NdArray 2, NdArray 3)]) 0 = (ActT [0, 0], [- 1, - 2])"
      by (simp add: example_net_def)
    show "ac_q1 example_net (parameter_values example_heap (actor_critic example_agent))
            (ObsT [(NdArray 0, NdArray 1), (NdArray 2, NdArray 3)]) (ActT [0, 0]) = [0, 1]"
      by (simp add: example_net_def example_agent_def example_heap_def parameter_values_def)
    show "ac_q2 example_net (parameter_values example_heap (actor_critic example_agent))
            (ObsT [(NdArray 0, NdArray 1), (NdArray 2, NdArray 3)]) (ActT [0, 0]) = [1, 2]"
      by (simp add: example_net_def example_agent_def example_heap_def parameter_values_def)
  qed simp_all
  then show ?thesis
    by (simp add: spec_policy_loss_def example_agent_def example_config_def
          lessThan_Suc numeral_2_eq_2)
qed

text \<open>
  C1. For a batch of \<open>n\<close> rows, \<open>compute_loss_q\<close> returns the sum over the two
  current Q networks of the mean squared error, scaled row by row by the buffer's
  weights, between \<open>Q(o, a)\<close> and the Bellman backup
  \<open>r + gamma * (1 - done) * (min(Q1_targ(o2, a2), Q2_targ(o2, a2)) - alpha * log pi(a2 | o2))\<close>,
  where \<open>a2\<close> and its log-probability come from the current policy on \<open>o2\<close> and
  the two target values from the target networks.
\<close>

theorem compute_loss_q_bellman:
  assumes "data ''obs'' = Some o1" and "data ''act'' = Some a"
    and "data ''rew'' = Some (NumT r)" and "data ''obs2'' = Some o2"
    and "data ''done'' = Some (NumT d)"
    and "weights (replay_buffer agent) = Some w"
    and "ac_q1 net (parameter_values h (actor_critic agent)) o1 a = q1"
    and "ac_q2 net (parameter_values h (actor_critic agent)) o1 a = q2"
    and "ac_pi net (parameter_values h (actor_critic agent)) o2 eps = (a2, logp_a2)"
    and "ac_q1 net (parameter_values h (actor_critic_target agent)) o2 a2 = q1_pi_targ"
    and "ac_q2 net (parameter_values h (actor_critic_target agent)) o2 a2 = q2_pi_targ"
    and "0 < n" and "length r = n" and "length d = n" and "length w = n"
    and "length q1 = n" and "length q2 = n" and "length logp_a2 = n"
    and "length q1_pi_targ = n" and "length q2_pi_targ = n"
  shows "compute_loss_q net agent h data eps =
           Inr (spec_weighted_mse w q1
                  (spec_bellman_backup (gamma (cfg agent)) (alpha (cfg agent))
                     r d q1_pi_targ q2_pi_targ logp_a2) n +
                spec_weighted_mse w q2
                  (spec_bellman_backup (gamma (cfg agent)) (alpha (cfg agent))
                     r d q1_pi_targ q2_pi_targ logp_a2) n)"
proof -
  let ?target = "spec_bellman_backup (gamma (cfg agent)) (alpha (cfg agent))
                   r d q1_pi_targ q2_pi_targ logp_a2"
  let ?backup = "map2 (+) r
      (map2 (*) (map (\<lambda>x. gamma (cfg agent) * (1 - x)) d)
         (map2 (-) (map2 min q1_pi_targ q2_pi_targ)
            (map (\<lambda>x. alpha (cfg agent) * x) logp_a2)))"
  have len_backup: "length ?backup = n"
    using assms by simp
  have nth_backup: "?backup ! i = ?target i" if "i < n" for i
    using that assms by (simp add: spec_bellman_backup_def)
  have loss: "tensor_mean (map2 (*) w (map (\<lambda>x. x ^ 2) (map2 (-) q ?backup))) =
                Inr (spec_weighted_mse w q ?target n)"
    if "length q = n" for q
    unfolding spec_weighted_mse_def
  proof (rule tensor_mean_nth)
    show "length (map2 (*) w (map (\<lambda>x. x ^ 2) (map2 (-) q ?backup))) = n"
      using that len_backup assms by simp
    show "0 < n" by fact
    fix i assume "i < n"
    then show "map2 (*) w (map (\<lambda>x. x ^ 2) (map2 (-) q ?backup)) ! i =
                 w ! i * (q ! i - ?target i) ^ 2"
      using that len_backup nth_backup assms by simp
  qed
  have backup: "and_then (broadcast min q1_pi_targ q2_pi_targ) (\<lambda>q_pi_targ.
       and_then (broadcast (-) q_pi_targ (map (\<lambda>x. alpha (cfg agent) * x) logp_a2)) (\<lambda>soft.
       and_then (broadcast (*) (map (\<lambda>x. gamma (cfg agent) * (1 - x)) d) soft) (\<lambda>disc.
       and_then (broadcast (+) r disc) k))) = k ?backup" for k :: "real list \<Rightarrow> error + real"
    using assms by (simp add: broadcast_same)
  have mse: "and_then (broadcast (-) q ?backup) (\<lambda>e.
       and_then (broadcast (*) w (map (\<lambda>x. x ^ 2) e)) (\<lambda>l.
       and_then (tensor_mean l) k)) = k (spec_weighted_mse w q ?target n)"
    if "length q = n" for q and k :: "real \<Rightarrow> error + real"
    using that len_backup assms loss [OF that] by (simp add: broadcast_same)
  show ?thesis
    using assms(1-11)
    by (simp add: compute_loss_q_def lookup_def as_numbers_def backup
          mse [OF \<open>length q1 = n\<close>] mse [OF \<open>length q2 = n\<close>])
qed

theorem compute_loss_q_bellman_witness:
  "weights (replay_buffer example_agent) = Some [1, 1] \<and>
   compute_loss_q example_net example_agent example_heap example_data 0 = Inr 7"
proof -
  let ?o1 = "ObsT [(NdArray 0, NdArray 1), (NdArray 2, NdArray 3)] :: (nat, nat) tensor"
  let ?o2 = "ObsT [(NdArray 2, NdArray 3), (NdArray 4, NdArray 5)] :: (nat, nat) tensor"
  have w: "weights (replay_buffer example_agent) = Some [1, 1]"
    by (simp add: example_agent_def)
  have "compute_loss_q example_net example_agent example_heap example_data 0 =
          Inr (spec_weighted_mse [1, 1] [0, 1]
                 (spec_bellman_backup (gamma (cfg example_agent)) (alpha (cfg example_agent))
                    [1, 2] [0, 1] [3, 4] [4, 5] [- 1, - 2]) 2 +
               spec_weighted_mse [1, 1] [1, 2]
                 (spec_bellman_backup (gamma (cfg example_agent)) (alpha (cfg example_agent))
                    [1, 2] [0, 1] [3, 4] [4, 5] [- 1, - 2]) 2)"
  proof (rule compute_loss_q_bellman)
    show "example_data ''obs'' = Some ?o1" "example_data ''obs2'' = Some ?o2"
      "example_data ''act'' = Some (ActT [7, 7])"
      "example_data ''rew'' = Some (NumT [1, 2])" "example_data ''done'' = Some (NumT [0, 1])"
      by (simp_all add: example_data_def)
    show "weights (replay_buffer example_agent) = Some [1, 1]"
      by (rule w)
    show "ac_pi example_net (parameter_values example_heap (actor_critic example_agent)) ?o2 0 =
            (ActT [0, 0], [- 1, - 2])"
      by (simp add: example_net_def)
    show "ac_q1 example_net (parameter_values example_heap (actor_critic example_agent))
            ?o1 (ActT [7, 7]) = [0, 1]"
      "ac_q2 example_net (parameter_values example_heap (actor_critic example_agent))
            ?o1 (ActT [7, 7]) = [1, 2]"
      "ac_q1 example_net (parameter_values example_heap (actor_critic_target example_agent))
            ?o2 (ActT [0, 0]) = [3, 4]"
      "ac_q2 example_net (parameter_values example_heap (actor_critic_target example_agent))
            ?o2 (ActT [0, 0]) = [4, 5]"
      by (simp_all add: example_net_def example_agent_def example_heap_def parameter_values_def)
  qed simp_all
  then show ?thesis
    using w
    by (simp add: spec_weighted_mse_def spec_bellman_backup_def example_agent_def
          example_config_def lessThan_Suc numeral_2_eq_2)
qed

section \<open>A sampled batch carries zero weights\<close>








































section \<open>The stages of update on the heap\<close>

lemma zero_grad_data [simp]: "p_data (zero_grad opt h p) = p_data (h p)"
  by (simp add: zero_grad_def)

lemma zero_grad_flag [simp]: "requires_grad (zero_grad opt h p) = requires_grad (h p)"
  by (simp add: zero_grad_def)

lemma backward_data [simp]: "p_data (backward g h p) = p_data (h p)"
  by (simp add: backward_def split: option.splits)

lemma backward_flag [simp]: "requires_grad (backward g h p) = requires_grad (h p)"
  by (simp add: backward_def split: option.splits)


lemma optimizer_step_flag [simp]:
  "requires_grad (optimizer_step opt h p) = requires_grad (h p)"
  by (simp add: optimizer_step_def split: option.splits)

lemma optimizer_step_other:
  "p \<notin> set (param_group opt) \<Longrightarrow> optimizer_step opt h p = h p"
  by (simp add: optimizer_step_def)


lemma set_requires_grad_data [simp]:
  "p_data (set_requires_grad ps flag h p) = p_data (h p)"
  by (induction ps arbitrary: h) simp_all

lemma set_requires_grad_grad [simp]:
  "grad (set_requires_grad ps flag h p) = grad (h p)"
  by (induction ps arbitrary: h) simp_all

lemma set_requires_grad_flag:
  "requires_grad (set_requires_grad ps flag h p) =
     (if p \<in> set ps then flag else requires_grad (h p))"
  by (induction ps arbitrary: h) auto

lemma polyak_average_flag [simp]:
  "requires_grad (polyak_average c pairs h p) = requires_grad (h p)"
proof (induction pairs arbitrary: h)
  case Nil
  show ?case by simp
next
  case (Cons pt pairs)
  obtain q t where "pt = (q, t)"
    by (cases pt)
  then show ?case
    by (simp add: Cons.IH Let_def)
qed

lemma polyak_average_other:
  "p \<notin> snd ` set pairs \<Longrightarrow> polyak_average c pairs h p = h p"
proof (induction pairs arbitrary: h)
  case Nil
  show ?case by simp
next
  case (Cons pt pairs)
  obtain q t where pt: "pt = (q, t)"
    by (cases pt)
  with Cons.prems have "p \<noteq> t" "p \<notin> snd ` set pairs"
    by auto
  then show ?case
    by (simp add: pt Cons.IH Let_def)
qed

lemma polyak_average_target:
  assumes "distinct ts" and "set ps \<inter> set ts = {}" and "i < length ps" and "i < length ts"
  shows "p_data (polyak_average c (zip ps ts) h (ts ! i)) =
           c *\<^sub>R p_data (h (ts ! i)) + (1 - c) *\<^sub>R p_data (h (ps ! i))"
  using assms
proof (induction ps arbitrary: ts i h)
  case Nil
  then show ?case by simp
next
  case (Cons p ps)
  then obtain t ts' where ts: "ts = t # ts'"
    by (cases ts) auto
  let ?h2 = "h(t := (h t)\<lparr>p_data := c *\<^sub>R p_data (h t) + (1 - c) *\<^sub>R p_data (h p)\<rparr>)"
  have pt: "p \<noteq> t" and t_new: "t \<notin> set ts'" and t_src: "t \<notin> set ps"
    using Cons.prems ts by auto
  show ?case
  proof (cases i)
    case 0
    have "t \<notin> snd ` set (zip ps ts')"
      using t_new by (auto dest: set_zip_rightD)
    then have "polyak_average c (zip ps ts') ?h2 t = ?h2 t"
      by (rule polyak_average_other)
    then show ?thesis
      using pt by (simp add: 0 ts Let_def)
  next
    case (Suc j)
    have "p_data (polyak_average c (zip ps ts') ?h2 (ts' ! j)) =
            c *\<^sub>R p_data (?h2 (ts' ! j)) + (1 - c) *\<^sub>R p_data (?h2 (ps ! j))"
      using Cons.prems ts Suc by (intro Cons.IH) auto
    moreover have "ts' ! j \<noteq> t" "ps ! j \<noteq> t"
      using Cons.prems ts Suc t_new t_src by (auto simp: in_set_conv_nth)
    ultimately show ?thesis
      using pt by (simp add: Suc ts Let_def)
  qed
qed

lemma q_step_Inr:
  assumes "q_step net agent data eps dq h = Inr h3"
  shows "h3 = optimizer_step (q_optimizer agent)
                (backward (dq (zero_grad (q_optimizer agent) h)) (zero_grad (q_optimizer agent) h))"
  using assms by (auto simp: q_step_def Let_def and_then_eq_Inr)

lemma pi_step_Inr:
  assumes "pi_step net agent data eps dpi h = Inr h7"
  shows "h7 = optimizer_step (pi_optimizer agent)
                (backward (dpi (zero_grad (pi_optimizer agent) h)) (zero_grad (pi_optimizer agent) h))"
  using assms by (auto simp: pi_step_def Let_def and_then_eq_Inr)

lemma update_Inr:
  assumes "update net agent data eps_q eps_pi dq dpi h = Inr h'"
  obtains h3 h7 where "q_step net agent data eps_q dq h = Inr h3"
    and "pi_step net agent data eps_pi dpi (freeze_q agent h3) = Inr h7"
    and "h' = target_step agent (unfreeze_q agent h7)"
  using assms by (auto simp: update_def and_then_eq_Inr)

lemma optimizer_step_data_other:
  "p \<notin> set (param_group opt) \<Longrightarrow> p_data (optimizer_step opt h p) = p_data (h p)"
  by (simp add: optimizer_step_other)

subsection \<open>The example run\<close>

lemma example_values:
  assumes "\<And>p. p_data (h p) = real p"
  shows "parameter_values h (actor_critic example_agent) = [0, 1, 2]"
    and "parameter_values h (actor_critic_target example_agent) = [3, 4, 5]"
  using assms by (simp_all add: parameter_values_def example_agent_def)

lemma example_loss_q:
  assumes "\<And>p. p_data (h p) = real p"
  shows "compute_loss_q example_net example_agent h example_data 0 = Inr 7"
  by (simp add: compute_loss_q_def example_values [OF assms] lookup_def as_numbers_def
        broadcast_def tensor_mean_def example_net_def example_data_def)
     (simp add: example_agent_def example_config_def)

lemma example_loss_pi:
  "\<exists>l. compute_loss_pi example_net example_agent h example_data 0 = Inr l"
proof -
  have mean: "tensor_mean [x, y] = Inr ((x + y) / 2)" for x y
    by (simp add: tensor_mean_def)
  have half: "\<exists>l::real. x = l * 2" for x
    by (rule exI [of _ "x / 2"]) simp
  show ?thesis
    by (simp add: compute_loss_pi_def lookup_def broadcast_def example_net_def
          example_data_def mean half)
qed

lemma example_q_step:
  "q_step example_net example_agent example_data 0 example_dq example_heap = Inr example_h3"
proof -
  have "compute_loss_q example_net example_agent
          (zero_grad (q_optimizer example_agent) example_heap) example_data 0 = Inr 7"
    by (rule example_loss_q) (simp add: example_heap_def)
  then show ?thesis
    by (simp add: q_step_def example_h3_def Let_def)
qed

lemma example_h3_data:
  "p_data (example_h3 p) = (if p = 0 then - 1 else if p = 1 then 0 else real p)"
  by (simp add: example_h3_def optimizer_step_def backward_def zero_grad_def example_dq_def
        example_agent_def example_optimizer_def example_heap_def)

lemma example_pi_step:
  "pi_step example_net example_agent example_data 0 example_dpi
     (freeze_q example_agent example_h3) = Inr example_h7"
  using example_loss_pi [of "zero_grad (pi_optimizer example_agent)
     (freeze_q example_agent example_h3)"]
  by (auto simp: pi_step_def example_h7_def Let_def)

lemma example_update:
  "update example_net example_agent example_data 0 0 example_dq example_dpi example_heap =
     Inr (target_step example_agent (unfreeze_q example_agent example_h7))"
  by (simp add: update_def example_q_step example_pi_step)

lemma example_h3_flag: "requires_grad (example_h3 p)"
  by (simp add: example_h3_def example_heap_def)

lemma example_h7_data:
  "p_data (example_h7 p) = (if p = 0 then - 1 else if p = 1 then 0 else if p = 2 then 0 else real p)"
  by (simp add: example_h7_def optimizer_step_def backward_def zero_grad_def example_dpi_def
        freeze_q_def set_requires_grad_flag example_h3_data example_h3_flag)
     (simp add: example_agent_def example_optimizer_def)

section \<open>The target networks follow by polyak averaging\<close>

text \<open>
  C4. Let \<open>update\<close> return. The target parameters are distinct objects, none of them
  a parameter of the online actor-critic (the target is a \<open>deepcopy\<close>), there are as
  many of them, and no optimizer owns one. Then after the call each target parameter is
  \<open>polyak\<close> times its value before the call plus \<open>1 - polyak\<close> times the
  corresponding online parameter as the two gradient steps of this call left it, and
  the averaging does not change the online parameter.
\<close>

theorem update_polyak_target:
  assumes "update net agent data eps_q eps_pi dq dpi h = Inr h'"
    and "distinct (actor_critic_target agent)"
    and "set (actor_critic agent) \<inter> set (actor_critic_target agent) = {}"
    and "length (actor_critic agent) = length (actor_critic_target agent)"
    and "set (param_group (q_optimizer agent)) \<inter> set (actor_critic_target agent) = {}"
    and "set (param_group (pi_optimizer agent)) \<inter> set (actor_critic_target agent) = {}"
    and "i < length (actor_critic_target agent)"
  shows "\<exists>h3 h7.
           q_step net agent data eps_q dq h = Inr h3 \<and>
           pi_step net agent data eps_pi dpi (freeze_q agent h3) = Inr h7 \<and>
           p_data (h' (actor_critic agent ! i)) = p_data (h7 (actor_critic agent ! i)) \<and>
           p_data (h' (actor_critic_target agent ! i)) =
             polyak (cfg agent) *\<^sub>R p_data (h (actor_critic_target agent ! i)) +
             (1 - polyak (cfg agent)) *\<^sub>R p_data (h7 (actor_critic agent ! i))"
proof -
  let ?p = "actor_critic agent ! i" and ?t = "actor_critic_target agent ! i"
  from assms(1) obtain h3 h7 where
    q: "q_step net agent data eps_q dq h = Inr h3" and
    pi: "pi_step net agent data eps_pi dpi (freeze_q agent h3) = Inr h7" and
    h': "h' = target_step agent (unfreeze_q agent h7)"
    by (rule update_Inr)
  have i: "i < length (actor_critic agent)"
    using assms(4,7) by simp
  have t_in: "?t \<in> set (actor_critic_target agent)" and p_in: "?p \<in> set (actor_critic agent)"
    using assms(7) i by simp_all
  have t_q: "?t \<notin> set (param_group (q_optimizer agent))"
    and t_pi: "?t \<notin> set (param_group (pi_optimizer agent))"
    using t_in assms(5,6) by auto
  have "p_data (h3 ?t) = p_data (h ?t)"
    by (simp add: q_step_Inr [OF q] optimizer_step_data_other [OF t_q])
  moreover have "p_data (h7 ?t) = p_data (h3 ?t)"
    by (simp add: pi_step_Inr [OF pi] optimizer_step_data_other [OF t_pi] freeze_q_def)
  ultimately have before: "p_data (unfreeze_q agent h7 ?t) = p_data (h ?t)"
    by (simp add: unfreeze_q_def)
  have "p_data (h' ?t) =
          polyak (cfg agent) *\<^sub>R p_data (unfreeze_q agent h7 ?t) +
          (1 - polyak (cfg agent)) *\<^sub>R p_data (unfreeze_q agent h7 ?p)"
    unfolding h' target_step_def
    using assms(2,3) i assms(7) by (rule polyak_average_target)
  then have target: "p_data (h' ?t) =
          polyak (cfg agent) *\<^sub>R p_data (h ?t) + (1 - polyak (cfg agent)) *\<^sub>R p_data (h7 ?p)"
    by (simp add: before) (simp add: unfreeze_q_def)
  have "?p \<notin> snd ` set (zip (actor_critic agent) (actor_critic_target agent))"
    using p_in assms(3) by (auto dest: set_zip_rightD)
  then have "h' ?p = unfreeze_q agent h7 ?p"
    unfolding h' target_step_def by (rule polyak_average_other)
  then have online: "p_data (h' ?p) = p_data (h7 ?p)"
    by (simp add: unfreeze_q_def)
  show ?thesis
    using q pi online target by blast
qed

theorem update_polyak_target_witness:
  "\<exists>h'. update example_net example_agent example_data 0 0 example_dq example_dpi example_heap
           = Inr h' \<and>
         p_data (h' 5) = 15 / 4 \<and> p_data (h' 2) = 0"
proof -
  let ?h' = "target_step example_agent (unfreeze_q example_agent example_h7)"
  have "\<exists>h3 h7.
           q_step example_net example_agent example_data 0 example_dq example_heap = Inr h3 \<and>
           pi_step example_net example_agent example_data 0 example_dpi
             (freeze_q example_agent h3) = Inr h7 \<and>
           p_data (?h' (actor_critic example_agent ! 2)) =
             p_data (h7 (actor_critic example_agent ! 2)) \<and>
           p_data (?h' (actor_critic_target example_agent ! 2)) =
             polyak (cfg example_agent) *\<^sub>R p_data (example_heap (actor_critic_target example_agent ! 2)) +
             (1 - polyak (cfg example_agent)) *\<^sub>R p_data (h7 (actor_critic example_agent ! 2))"
    using example_update
    by (rule update_polyak_target)
       (simp_all add: example_agent_def example_optimizer_def)
  then have "p_data (?h' (actor_critic example_agent ! 2)) =
             p_data (example_h7 (actor_critic example_agent ! 2)) \<and>
           p_data (?h' (actor_critic_target example_agent ! 2)) =
             polyak (cfg example_agent) *\<^sub>R p_data (example_heap (actor_critic_target example_agent ! 2)) +
             (1 - polyak (cfg example_agent)) *\<^sub>R p_data (example_h7 (actor_critic example_agent ! 2))"
    by (auto simp: example_q_step example_pi_step)
  then have "p_data (?h' 5) = 15 / 4 \<and> p_data (?h' 2) = 0"
    by (simp add: example_h7_data)
       (simp add: example_agent_def example_config_def example_heap_def)
  with example_update show ?thesis
    by blast
qed

section \<open>The policy step does not touch the Q parameters\<close>





end
